theory Spec2Isabelle
  imports Main "HOL-Library.Word"
begin

section \<open>The royale-sys adapter: data model\<close>

text \<open>
  The adapter (\<^verbatim>\<open>wrapper.cpp\<close>, \<^verbatim>\<open>wrapper.hpp\<close>) is a flat set of C-callable functions
  around the Royale camera SDK. The SDK itself (\<^verbatim>\<open><royale.hpp>\<close>) is an external library;
  every one of its entry points the adapter calls is a field of the record \<open>royale\<close>
  below, so each theorem holds for whatever the SDK does.
\<close>

subsection \<open>Integers, addresses and opaque pointers\<close>

text \<open>C's \<^verbatim>\<open>int\<close> (32 bits, read as two's complement by \<open>sint\<close>) and the fixed-width
  types of \<^verbatim>\<open><inttypes.h>\<close>.\<close>

type_synonym c_int = "32 word"
type_synonym uint32_t = "32 word"

text \<open>A machine address; \<open>0\<close> is \<^verbatim>\<open>nullptr\<close>. \<^verbatim>\<open>void*\<close> and the function pointer
  \<^verbatim>\<open>DataListenerCallback\<close> are plain addresses.\<close>

type_synonym addr = nat
type_synonym DataListenerCallback = addr

text \<open>The typed pointers of the interface. Each carries the address it points to.\<close>

datatype Camera_ptr = Camera_ptr addr
datatype ICameraDevice_ptr = ICameraDevice_ptr addr
datatype DataListener_ptr = DataListener_ptr addr
datatype Frame_ptr = Frame_ptr addr
datatype DepthData_ptr = DepthData_ptr addr

text \<open>\<^verbatim>\<open>reinterpret_cast\<close> between pointer types keeps the address.\<close>

fun toCameraDevice :: "Camera_ptr \<Rightarrow> ICameraDevice_ptr" where
  "toCameraDevice (Camera_ptr a) = ICameraDevice_ptr a"

fun reinterpret_cast_Camera :: "ICameraDevice_ptr \<Rightarrow> Camera_ptr" where
  "reinterpret_cast_Camera (ICameraDevice_ptr a) = Camera_ptr a"

fun reinterpret_cast_Frame :: "DepthData_ptr \<Rightarrow> Frame_ptr" where
  "reinterpret_cast_Frame (DepthData_ptr a) = Frame_ptr a"

subsection \<open>SDK enumerations\<close>

text \<open>
  \<^verbatim>\<open>royale::CameraStatus\<close> is a scoped enumeration over \<^verbatim>\<open>int\<close>: a value of the type is
  the integer it holds, and \<^verbatim>\<open>static_cast\<close> in either direction keeps that integer. The
  enumerators' values come from the SDK header; the one the adapter names, \<open>SUCCESS\<close>,
  is a field of \<open>royale\<close>.
\<close>

datatype CameraStatus = CameraStatus c_int

fun static_cast_int :: "CameraStatus \<Rightarrow> c_int" where
  "static_cast_int (CameraStatus n) = n"

definition toCameraStatus :: "c_int \<Rightarrow> CameraStatus" where
  "toCameraStatus camera_status = CameraStatus camera_status"

datatype ExposureMode = MANUAL | AUTOMATIC

subsection \<open>The listener class\<close>

text \<open>\<^verbatim>\<open>class DataListener\<close>: the two private fields, set by the constructor.\<close>

record DataListener =
  DataListener_callback :: DataListenerCallback
  DataListener_payload :: addr

definition DataListener_ctor :: "DataListenerCallback \<Rightarrow> addr \<Rightarrow> DataListener" where
  "DataListener_ctor callback payload =
     \<lparr>DataListener_callback = callback, DataListener_payload = payload\<rparr>"

subsection \<open>The SDK as a parameter\<close>

text \<open>
  The SDK keeps state of its own (devices, registered listener, current settings), of
  an arbitrary type \<open>'s\<close>. A method takes its arguments and the SDK state and returns its
  result with the new state. An argument passed by reference is passed in and returned:
  \<open>getExposureMode\<close> returns the value its reference argument holds after the call,
  \<open>getExposureLimits\<close> takes the pair the local holds before the call and returns the
  pair it holds after. \<open>delete_ICameraDevice\<close> is the device's virtual destructor.
  Constructing and destroying the transient \<^verbatim>\<open>CameraManager\<close> is part of the state
  transitions of its two methods.
\<close>

record 's royale =
  SUCCESS :: CameraStatus
  getStatusString :: "CameraStatus \<Rightarrow> string"
  getConnectedCameraList :: "'s \<Rightarrow> string list \<times> 's"
  createCamera :: "string \<Rightarrow> 's \<Rightarrow> ICameraDevice_ptr \<times> 's"
  initialize :: "ICameraDevice_ptr \<Rightarrow> 's \<Rightarrow> CameraStatus \<times> 's"
  registerDataListener :: "ICameraDevice_ptr \<Rightarrow> DataListener_ptr \<Rightarrow> 's \<Rightarrow> CameraStatus \<times> 's"
  unregisterDataListener :: "ICameraDevice_ptr \<Rightarrow> 's \<Rightarrow> CameraStatus \<times> 's"
  getExposureMode :: "ICameraDevice_ptr \<Rightarrow> 's \<Rightarrow> (CameraStatus \<times> ExposureMode) \<times> 's"
  setExposureMode :: "ICameraDevice_ptr \<Rightarrow> ExposureMode \<Rightarrow> 's \<Rightarrow> CameraStatus \<times> 's"
  getExposureLimits ::
    "ICameraDevice_ptr \<Rightarrow> uint32_t \<times> uint32_t \<Rightarrow> 's \<Rightarrow> (CameraStatus \<times> uint32_t \<times> uint32_t) \<times> 's"
  delete_ICameraDevice :: "ICameraDevice_ptr \<Rightarrow> 's \<Rightarrow> unit \<times> 's"

text \<open>The macro \<^verbatim>\<open>OK\<close>.\<close>

definition OK :: "'s royale \<Rightarrow> c_int" where
  "OK R = static_cast_int (SUCCESS R)"

subsection \<open>The world the adapter acts on\<close>

text \<open>
  Everything the adapter does beyond returning a value crosses one of three borders: a
  call into the SDK, an allocation or release on the C++ heap, or a call of the foreign
  callback. Each crossing is an event, and the trace lists them in program order.
\<close>

datatype event =
    Call_getConnectedCameraList
  | Call_createCamera string
  | Call_initialize ICameraDevice_ptr
  | Call_registerDataListener ICameraDevice_ptr DataListener_ptr
  | Call_unregisterDataListener ICameraDevice_ptr
  | Call_getExposureMode ICameraDevice_ptr
  | Call_setExposureMode ICameraDevice_ptr ExposureMode
  | Call_getExposureLimits ICameraDevice_ptr
  | Delete_ICameraDevice ICameraDevice_ptr
  | New_DataListener DataListener_ptr
  | Delete_DataListener DataListener_ptr
  | Callback_invoked DataListenerCallback Frame_ptr addr

text \<open>
  \<open>sdk_state\<close> is the SDK's state; \<open>listeners\<close> holds the live \<open>DataListener\<close> objects by
  address; \<open>brk\<close> is the last address \<^verbatim>\<open>operator new\<close> handed out (it hands out
  \<open>brk + 1\<close> next, so never \<^verbatim>\<open>nullptr\<close> and never a live address twice).
\<close>

record 's world =
  sdk_state :: 's
  listeners :: "addr \<Rightarrow> DataListener option"
  brk :: addr
  trace :: "event list"

text \<open>A call into the SDK: run the method on the SDK state, log the call.\<close>

definition sdk_call :: "event \<Rightarrow> ('s \<Rightarrow> 'a \<times> 's) \<Rightarrow> 's world \<Rightarrow> 'a \<times> 's world" where
  "sdk_call e method w =
     (let (r, s') = method (sdk_state w)
      in (r, w\<lparr>sdk_state := s', trace := trace w @ [e]\<rparr>))"

text \<open>\<^verbatim>\<open>new DataListener(callback, payload)\<close> and \<^verbatim>\<open>delete listener\<close> (which does nothing
  for \<^verbatim>\<open>nullptr\<close>).\<close>

definition new_DataListener ::
  "DataListenerCallback \<Rightarrow> addr \<Rightarrow> 's world \<Rightarrow> DataListener_ptr \<times> 's world" where
  "new_DataListener callback payload w =
     (let a = Suc (brk w)
      in (DataListener_ptr a,
          w\<lparr>listeners := (listeners w)(a := Some (DataListener_ctor callback payload)),
            brk := a,
            trace := trace w @ [New_DataListener (DataListener_ptr a)]\<rparr>))"

fun delete_DataListener :: "DataListener_ptr \<Rightarrow> 's world \<Rightarrow> 's world" where
  "delete_DataListener (DataListener_ptr a) w =
     (if a = 0 then w
      else w\<lparr>listeners := (listeners w)(a := None),
             trace := trace w @ [Delete_DataListener (DataListener_ptr a)]\<rparr>)"

text \<open>
  \<^verbatim>\<open>delete\<close> applied to a device pointer: nothing happens for \<^verbatim>\<open>nullptr\<close>, otherwise the
  SDK's destructor runs.
\<close>

definition delete_camera_device :: "'s royale \<Rightarrow> ICameraDevice_ptr \<Rightarrow> 's world \<Rightarrow> 's world" where
  "delete_camera_device R dev w =
     (if dev = ICameraDevice_ptr 0 then w
      else snd (sdk_call (Delete_ICameraDevice dev) (delete_ICameraDevice R dev) w))"

section \<open>Listener adapter\<close>

text \<open>
  \<^verbatim>\<open>void onNewData(const royale::DepthData* data) override
  { callback(reinterpret_cast<const Frame*>(data), payload); }\<close>

  The callback is the caller's code; the adapter's part is the call, with its arguments.
\<close>

definition onNewData :: "DataListener \<Rightarrow> DepthData_ptr \<Rightarrow> 's world \<Rightarrow> 's world" where
  "onNewData self data w =
     w\<lparr>trace := trace w @
       [Callback_invoked (DataListener_callback self) (reinterpret_cast_Frame data)
          (DataListener_payload self)]\<rparr>"

section \<open>Camera handle: attachment, configuration, deletion\<close>

text \<open>
  Every operation on a camera calls a method through the pointer it is given, without
  a check; the SDK method receives that pointer.

  The macro \<^verbatim>\<open>TRY(m)\<close> returns \<^verbatim>\<open>static_cast<int>(status)\<close> from the enclosing function
  when \<^verbatim>\<open>m\<close> yields a status other than \<open>SUCCESS\<close>; below it is the \<open>if status \<noteq> SUCCESS R\<close>
  after each SDK call. The out-parameters \<^verbatim>\<open>*camera\<close> and \<^verbatim>\<open>*listener\<close> are passed in with
  the values the caller wrote and returned with the values they hold at the end.

  \<^verbatim>\<open>int camera_attach(DataListenerCallback callback, void* payload,
                    Camera** camera, DataListener** listener)
  {
      royale::CameraManager manager;
      auto connectedCameraList = manager.getConnectedCameraList();
      if (connectedCameraList.count() > 0) {
          royale::ICameraDevice* cameraDevice =
            manager.createCamera(connectedCameraList[0]).release();
          *camera = reinterpret_cast<Camera*>(cameraDevice);
          if (cameraDevice != nullptr) {
              TRY(cameraDevice->initialize());
              *listener = new DataListener(callback, payload);
              TRY(cameraDevice->registerDataListener(*listener));
          }
      }
      return OK;
  }\<close>
\<close>

definition camera_attach ::
  "'s royale \<Rightarrow> DataListenerCallback \<Rightarrow> addr \<Rightarrow> Camera_ptr \<Rightarrow> DataListener_ptr \<Rightarrow> 's world
     \<Rightarrow> c_int \<times> Camera_ptr \<times> DataListener_ptr \<times> 's world" where
  "camera_attach R callback payload camera listener w =
     (let (connectedCameraList, w1) =
            sdk_call Call_getConnectedCameraList (getConnectedCameraList R) w
      in if length connectedCameraList > 0 then
           let (cameraDevice, w2) =
                 sdk_call (Call_createCamera (connectedCameraList ! 0))
                   (createCamera R (connectedCameraList ! 0)) w1;
               camera' = reinterpret_cast_Camera cameraDevice
           in if cameraDevice \<noteq> ICameraDevice_ptr 0 then
                let (status, w3) =
                      sdk_call (Call_initialize cameraDevice) (initialize R cameraDevice) w2
                in if status \<noteq> SUCCESS R then (static_cast_int status, camera', listener, w3)
                   else
                     let (listener', w4) = new_DataListener callback payload w3;
                         (status, w5) =
                           sdk_call (Call_registerDataListener cameraDevice listener')
                             (registerDataListener R cameraDevice listener') w4
                     in if status \<noteq> SUCCESS R
                        then (static_cast_int status, camera', listener', w5)
                        else (OK R, camera', listener', w5)
              else (OK R, camera', listener, w2)
         else (OK R, camera, listener, w1))"

text \<open>
  \<^verbatim>\<open>int camera_get_exposure_mode(Camera* camera, bool* isManual)
  {
      royale::ExposureMode exposureMode;
      TRY(toCameraDevice(camera)->getExposureMode(exposureMode));
      *isManual = exposureMode == royale::ExposureMode::MANUAL;
      return OK;
  }\<close>
\<close>

definition camera_get_exposure_mode ::
  "'s royale \<Rightarrow> Camera_ptr \<Rightarrow> bool \<Rightarrow> 's world \<Rightarrow> c_int \<times> bool \<times> 's world" where
  "camera_get_exposure_mode R camera isManual w =
     (let ((status, exposureMode), w1) =
            sdk_call (Call_getExposureMode (toCameraDevice camera))
              (getExposureMode R (toCameraDevice camera)) w
      in if status \<noteq> SUCCESS R then (static_cast_int status, isManual, w1)
         else (OK R, exposureMode = MANUAL, w1))"

text \<open>
  \<^verbatim>\<open>int camera_set_exposure_mode(Camera* camera, bool isManual)
  {
      royale::ExposureMode exposureMode =
        isManual ? royale::ExposureMode::MANUAL : royale::ExposureMode::AUTOMATIC;
      TRY(toCameraDevice(camera)->setExposureMode(exposureMode));
      return OK;
  }\<close>
\<close>

definition camera_set_exposure_mode ::
  "'s royale \<Rightarrow> Camera_ptr \<Rightarrow> bool \<Rightarrow> 's world \<Rightarrow> c_int \<times> 's world" where
  "camera_set_exposure_mode R camera isManual w =
     (let exposureMode = (if isManual then MANUAL else AUTOMATIC);
          (status, w1) =
            sdk_call (Call_setExposureMode (toCameraDevice camera) exposureMode)
              (setExposureMode R (toCameraDevice camera) exposureMode) w
      in if status \<noteq> SUCCESS R then (static_cast_int status, w1) else (OK R, w1))"

text \<open>
  \<^verbatim>\<open>int camera_get_exposure_limits(Camera* camera, uint32_t* low, uint32_t* high)
  {
      auto exposureLimits = royale::Pair<uint32_t, uint32_t>();
      TRY(toCameraDevice(camera)->getExposureLimits(exposureLimits));
      *low = exposureLimits.first;
      *high = exposureLimits.second;
      return OK;
  }\<close>

  The value-initialised local pair is \<open>(0, 0)\<close>; the SDK is handed a reference to it.
\<close>

definition camera_get_exposure_limits ::
  "'s royale \<Rightarrow> Camera_ptr \<Rightarrow> uint32_t \<Rightarrow> uint32_t \<Rightarrow> 's world
     \<Rightarrow> c_int \<times> uint32_t \<times> uint32_t \<times> 's world" where
  "camera_get_exposure_limits R camera low high w =
     (let ((status, exposureLimits), w1) =
            sdk_call (Call_getExposureLimits (toCameraDevice camera))
              (getExposureLimits R (toCameraDevice camera) (0, 0)) w
      in if status \<noteq> SUCCESS R then (static_cast_int status, low, high, w1)
         else (OK R, fst exposureLimits, snd exposureLimits, w1))"

text \<open>
  \<^verbatim>\<open>void camera_delete(Camera* camera, DataListener* listener)
  {
      if (listener != nullptr) {
          toCameraDevice(camera)->unregisterDataListener();
          delete listener;
      }
      delete toCameraDevice(camera);
  }\<close>

  The status \<^verbatim>\<open>unregisterDataListener\<close> returns is dropped.
\<close>

definition camera_delete :: "'s royale \<Rightarrow> Camera_ptr \<Rightarrow> DataListener_ptr \<Rightarrow> 's world \<Rightarrow> 's world" where
  "camera_delete R camera listener w =
     (let w2 =
            (if listener \<noteq> DataListener_ptr 0 then
               let (status, w1) =
                     sdk_call (Call_unregisterDataListener (toCameraDevice camera))
                       (unregisterDataListener R (toCameraDevice camera)) w
               in delete_DataListener listener w1
             else w)
      in delete_camera_device R (toCameraDevice camera) w2)"

section \<open>Status projection\<close>

text \<open>
  \<^verbatim>\<open>bool is_camera_status_success(int camera_status)
  { return toCameraStatus(camera_status) == royale::CameraStatus::SUCCESS; }\<close>
\<close>

definition is_camera_status_success :: "'s royale \<Rightarrow> c_int \<Rightarrow> bool" where
  "is_camera_status_success R camera_status = (toCameraStatus camera_status = SUCCESS R)"

section \<open>C strings handed to the caller\<close>

text \<open>
  A \<^verbatim>\<open>royale::String\<close> is its characters: \<^verbatim>\<open>size()\<close> counts them, \<^verbatim>\<open>data()\<close> points to
  them followed by the terminating null byte.
\<close>

definition NUL :: char where
  "NUL = CHR 0x00"

definition String_size :: "string \<Rightarrow> nat" where
  "String_size string = length string"

definition String_data :: "string \<Rightarrow> char list" where
  "String_data string = string @ [NUL]"

text \<open>
  A block obtained from the C++ heap: how many \<^verbatim>\<open>char\<close>s were asked for, by which form
  of \<^verbatim>\<open>new\<close>, and the bytes written from its first byte on.
\<close>

datatype alloc_form = Scalar | Array

record char_block =
  allocated :: nat
  alloc_form_of :: alloc_form
  stored :: "char list"

text \<open>\<^verbatim>\<open>new char[n]\<close>.\<close>

definition new_char_array :: "nat \<Rightarrow> char_block" where
  "new_char_array n = \<lparr>allocated = n, alloc_form_of = Array, stored = []\<rparr>"

text \<open>
  \<^verbatim>\<open>strcpy(dest, src)\<close> writes the bytes of \<open>src\<close> up to and including the first null
  byte to \<open>dest\<close>, whatever the size of \<open>dest\<close>.
\<close>

definition strcpy :: "char_block \<Rightarrow> char list \<Rightarrow> char_block" where
  "strcpy dest src = dest\<lparr>stored := takeWhile (\<lambda>c. c \<noteq> NUL) src @ [NUL]\<rparr>"

text \<open>
  \<^verbatim>\<open>char* camera_status_to_string(int camera_status)
  {
      royale::String string =
        royale::getStatusString(toCameraStatus(camera_status));
      char* output = new char[string.size()];
      strcpy(output, string.data());
      return output;
  }\<close>
\<close>

definition camera_status_to_string :: "'s royale \<Rightarrow> c_int \<Rightarrow> char_block" where
  "camera_status_to_string R camera_status =
     (let string = getStatusString R (toCameraStatus camera_status);
          output = new_char_array (String_size string)
      in strcpy output (String_data string))"

text \<open>
  \<^verbatim>\<open>char* string_vector_get(StringVector* vector, int index)
  {
      royale::String string =
        (*reinterpret_cast<royale::Vector<royale::String>*>(vector))[index];
      char* output = new char[string.size()];
      strcpy(output, string.data());
      return output;
  }\<close>

  The vector is the list of its strings. Its \<^verbatim>\<open>operator[]\<close> checks nothing: an index
  outside the vector (a negative \<^verbatim>\<open>int\<close> becomes a huge \<^verbatim>\<open>size_t\<close>) has no defined
  result, which is \<open>None\<close> here.
\<close>

definition string_vector_get :: "string list \<Rightarrow> c_int \<Rightarrow> char_block option" where
  "string_vector_get vector index =
     (if 0 \<le> sint index \<and> nat (sint index) < length vector then
        let string = vector ! nat (sint index);
            output = new_char_array (String_size string)
        in Some (strcpy output (String_data string))
      else None)"

text \<open>
  A release of a block by one of the two forms of \<^verbatim>\<open>delete\<close>. C++ defines the release
  only when the form is the one the block was allocated with.
\<close>

datatype release = Released | Mismatched alloc_form alloc_form

definition operator_delete :: "alloc_form \<Rightarrow> char_block \<Rightarrow> release" where
  "operator_delete f block =
     (if alloc_form_of block = f then Released else Mismatched (alloc_form_of block) f)"

text \<open>\<^verbatim>\<open>void delete_string(char* string) { delete string; }\<close>\<close>

definition delete_string :: "char_block \<Rightarrow> release" where
  "delete_string string = operator_delete Scalar string"

text \<open>What a caller needs of a returned C string.\<close>

definition fits_allocation :: "char_block \<Rightarrow> bool" where
  "fits_allocation block = (length (stored block) \<le> allocated block)"

definition null_terminated_copy :: "string \<Rightarrow> char_block \<Rightarrow> bool" where
  "null_terminated_copy string block = (stored block = string @ [NUL])"

section \<open>A scripted SDK\<close>

text \<open>
  To run the adapter on concrete inputs, an SDK whose answers are read off its state:
  the connected cameras, the device \<open>createCamera\<close> yields, the statuses of
  \<open>initialize\<close>, \<open>registerDataListener\<close> and \<open>getExposureLimits\<close>, the limits, and the
  exposure mode, which \<open>setExposureMode\<close> stores and \<open>getExposureMode\<close> reports.
\<close>

record script =
  script_cameras :: "string list"
  script_device :: ICameraDevice_ptr
  script_initialize :: CameraStatus
  script_register :: CameraStatus
  script_limits_status :: CameraStatus
  script_limits :: "uint32_t \<times> uint32_t"
  script_mode :: ExposureMode

definition scripted :: "script royale" where
  "scripted =
     \<lparr>SUCCESS = CameraStatus 0,
      getStatusString = (\<lambda>status. if status = CameraStatus 0 then ''SUCCESS'' else ''RUNTIME_ERROR''),
      getConnectedCameraList = (\<lambda>s. (script_cameras s, s)),
      createCamera = (\<lambda>cameraId s. (script_device s, s)),
      initialize = (\<lambda>dev s. (script_initialize s, s)),
      registerDataListener = (\<lambda>dev listener s. (script_register s, s)),
      unregisterDataListener = (\<lambda>dev s. (CameraStatus 0, s)),
      getExposureMode = (\<lambda>dev s. ((CameraStatus 0, script_mode s), s)),
      setExposureMode = (\<lambda>dev mode s. (CameraStatus 0, s\<lparr>script_mode := mode\<rparr>)),
      getExposureLimits = (\<lambda>dev limits s. ((script_limits_status s, script_limits s), s)),
      delete_ICameraDevice = (\<lambda>dev s. ((), s))\<rparr>"

definition script0 :: script where
  "script0 =
     \<lparr>script_cameras = [], script_device = ICameraDevice_ptr 0,
      script_initialize = CameraStatus 0, script_register = CameraStatus 0,
      script_limits_status = CameraStatus 0, script_limits = (50, 2000),
      script_mode = AUTOMATIC\<rparr>"

definition world0 :: "script \<Rightarrow> script world" where
  "world0 s = \<lparr>sdk_state = s, listeners = (\<lambda>a. None), brk = 0, trace = []\<rparr>"

text \<open>Scripts with one camera connected, and the step named failing or yielding null.\<close>

definition script_null_device :: script where
  "script_null_device = script0\<lparr>script_cameras := [''cam0'']\<rparr>"

definition script_initialize_fails :: script where
  "script_initialize_fails =
     script0\<lparr>script_cameras := [''cam0''], script_device := ICameraDevice_ptr 5,
       script_initialize := CameraStatus 1024\<rparr>"

definition script_register_fails :: script where
  "script_register_fails =
     script0\<lparr>script_cameras := [''cam0''], script_device := ICameraDevice_ptr 5,
       script_register := CameraStatus 1026\<rparr>"

definition script_limits_fail :: script where
  "script_limits_fail = script0\<lparr>script_limits_status := CameraStatus 1024\<rparr>"

text \<open>
  The same SDK, except that \<open>setExposureMode\<close> returns \<open>SUCCESS\<close> without storing the
  mode it is given.
\<close>

definition forgetful :: "script royale" where
  "forgetful = scripted\<lparr>setExposureMode := (\<lambda>dev mode s. (CameraStatus 0, s))\<rparr>"

text \<open>
  An SDK with one camera that keeps track of the device: which listener is registered
  with it, and whether its destructor has run. \<open>unattached\<close> is the world before
  \<open>camera_attach\<close>, \<open>attached\<close> the world after it, with the listener live at address 1.
\<close>

record device_state =
  registered :: "DataListener_ptr option"
  destroyed :: bool

definition tracking :: "device_state royale" where
  "tracking =
     \<lparr>SUCCESS = CameraStatus 0,
      getStatusString = (\<lambda>status. ''SUCCESS''),
      getConnectedCameraList = (\<lambda>s. ([''cam0''], s)),
      createCamera = (\<lambda>cameraId s. (ICameraDevice_ptr 5, s)),
      initialize = (\<lambda>dev s. (CameraStatus 0, s)),
      registerDataListener = (\<lambda>dev listener s. (CameraStatus 0, s\<lparr>registered := Some listener\<rparr>)),
      unregisterDataListener = (\<lambda>dev s. (CameraStatus 0, s\<lparr>registered := None\<rparr>)),
      getExposureMode = (\<lambda>dev s. ((CameraStatus 0, AUTOMATIC), s)),
      setExposureMode = (\<lambda>dev mode s. (CameraStatus 0, s)),
      getExposureLimits = (\<lambda>dev limits s. ((CameraStatus 0, limits), s)),
      delete_ICameraDevice = (\<lambda>dev s. ((), s\<lparr>destroyed := True\<rparr>))\<rparr>"

definition unattached :: "device_state world" where
  "unattached =
     \<lparr>sdk_state = \<lparr>registered = None, destroyed = False\<rparr>,
      listeners = (\<lambda>a. None), brk = 0, trace = []\<rparr>"

definition attached :: "device_state world" where
  "attached =
     \<lparr>sdk_state = \<lparr>registered = Some (DataListener_ptr 1), destroyed = False\<rparr>,
      listeners = (\<lambda>a. None)(1 := Some (DataListener_ctor 7 9)),
      brk = 1,
      trace = [Call_getConnectedCameraList, Call_createCamera ''cam0'',
               Call_initialize (ICameraDevice_ptr 5), New_DataListener (DataListener_ptr 1),
               Call_registerDataListener (ICameraDevice_ptr 5) (DataListener_ptr 1)]\<rparr>"

section \<open>Theorems\<close>

subsection \<open>Status projection\<close>

lemma static_cast_int_inj: "static_cast_int a = static_cast_int b \<longleftrightarrow> a = b"
  by (cases a; cases b) simp

lemma failing_status_not_OK: "status \<noteq> SUCCESS R \<Longrightarrow> static_cast_int status \<noteq> OK R"
  by (simp add: OK_def static_cast_int_inj)

text \<open>
  C3. For every integer code, \<open>is_camera_status_success\<close> is true exactly when the code
  equals the integer value of the SDK's \<open>SUCCESS\<close> status (the macro \<open>OK\<close>).
\<close>

theorem is_camera_status_success_iff:
  "is_camera_status_success R code \<longleftrightarrow> code = static_cast_int (SUCCESS R)"
  by (cases "SUCCESS R") (auto simp: is_camera_status_success_def toCameraStatus_def)

subsection \<open>Attachment\<close>

text \<open>
  C1. When the SDK reports no connected camera, \<open>camera_attach\<close> returns \<open>SUCCESS\<close> and
  \<open>*camera\<close> and \<open>*listener\<close> hold what the caller wrote before the call; the one thing
  that happened is the query of the camera list.
\<close>

theorem camera_attach_no_camera:
  assumes "getConnectedCameraList R (sdk_state w) = ([], s')"
  shows "camera_attach R callback payload camera listener w =
           (OK R, camera, listener,
            w\<lparr>sdk_state := s', trace := trace w @ [Call_getConnectedCameraList]\<rparr>)"
  using assms by (simp add: camera_attach_def sdk_call_def)

theorem camera_attach_no_camera_witness:
  "getConnectedCameraList scripted (sdk_state (world0 script0)) = ([], script0) \<and>
   camera_attach scripted 7 9 (Camera_ptr 11) (DataListener_ptr 22) (world0 script0) =
     (0, Camera_ptr 11, DataListener_ptr 22,
      \<lparr>sdk_state = script0, listeners = (\<lambda>a. None), brk = 0,
       trace = [Call_getConnectedCameraList]\<rparr>)"
proof -
  have h: "getConnectedCameraList scripted (sdk_state (world0 script0)) = ([], script0)"
    by (simp add: scripted_def world0_def script0_def)
  show ?thesis
    using h camera_attach_no_camera [OF h, of 7 9 "Camera_ptr 11" "DataListener_ptr 22"]
    by (simp add: OK_def scripted_def world0_def)
qed

text \<open>
  C8. When a camera is connected and the SDK's \<open>createCamera\<close> yields a null device,
  \<open>camera_attach\<close> returns \<open>SUCCESS\<close>, has written null into \<open>*camera\<close>, and has not
  written \<open>*listener\<close>: no listener was allocated, and the device was neither
  initialised nor given a listener.
\<close>

theorem camera_attach_null_device:
  assumes "getConnectedCameraList R (sdk_state w) = (cams, s1)"
    and "0 < length cams"
    and "createCamera R (cams ! 0) s1 = (ICameraDevice_ptr 0, s2)"
  shows "camera_attach R callback payload camera listener w =
           (OK R, Camera_ptr 0, listener,
            w\<lparr>sdk_state := s2,
              trace := trace w @ [Call_getConnectedCameraList, Call_createCamera (cams ! 0)]\<rparr>)"
  using assms by (simp add: camera_attach_def sdk_call_def)

theorem camera_attach_null_device_witness:
  "camera_attach scripted 7 9 (Camera_ptr 11) (DataListener_ptr 22) (world0 script_null_device) =
     (0, Camera_ptr 0, DataListener_ptr 22,
      \<lparr>sdk_state = script_null_device, listeners = (\<lambda>a. None), brk = 0,
       trace = [Call_getConnectedCameraList, Call_createCamera ''cam0'']\<rparr>)"
proof -
  have list: "getConnectedCameraList scripted (sdk_state (world0 script_null_device)) =
      ([''cam0''], script_null_device)"
    by (simp add: scripted_def world0_def script_null_device_def)
  have create: "createCamera scripted ([''cam0''] ! 0) script_null_device =
      (ICameraDevice_ptr 0, script_null_device)"
    by (simp add: scripted_def script_null_device_def script0_def)
  show ?thesis
    using camera_attach_null_device [OF list _ create, of 7 9 "Camera_ptr 11" "DataListener_ptr 22"]
    by (simp add: OK_def scripted_def world0_def)
qed

text \<open>
  C10. When \<open>createCamera\<close> yields a non-null device and a later step fails,
  \<open>camera_attach\<close> returns the failing status (an integer other than \<open>OK\<close>) with
  out-parameters already written. If \<open>initialize\<close> fails, \<open>*camera\<close> holds the non-null
  device handle and \<open>*listener\<close> is as the caller left it. If \<open>initialize\<close> succeeds and
  \<open>registerDataListener\<close> fails, \<open>*camera\<close> holds the device handle and \<open>*listener\<close> the
  address of the listener just allocated, which is live on the heap with the callback
  and payload of the call. Neither the device nor the listener is released.
\<close>

theorem camera_attach_failure_keeps_handles:
  assumes "getConnectedCameraList R (sdk_state w) = (cams, s1)"
    and "0 < length cams"
    and "createCamera R (cams ! 0) s1 = (dev, s2)"
    and "dev \<noteq> ICameraDevice_ptr 0"
  shows
    "(\<forall>status s3.
        initialize R dev s2 = (status, s3) \<and> status \<noteq> SUCCESS R \<longrightarrow>
        camera_attach R callback payload camera listener w =
          (static_cast_int status, reinterpret_cast_Camera dev, listener,
           w\<lparr>sdk_state := s3,
             trace := trace w @
               [Call_getConnectedCameraList, Call_createCamera (cams ! 0), Call_initialize dev]\<rparr>) \<and>
        static_cast_int status \<noteq> OK R \<and> reinterpret_cast_Camera dev \<noteq> Camera_ptr 0) \<and>
     (\<forall>s3 status s4.
        initialize R dev s2 = (SUCCESS R, s3) \<and>
        registerDataListener R dev (DataListener_ptr (Suc (brk w))) s3 = (status, s4) \<and>
        status \<noteq> SUCCESS R \<longrightarrow>
        camera_attach R callback payload camera listener w =
          (static_cast_int status, reinterpret_cast_Camera dev, DataListener_ptr (Suc (brk w)),
           w\<lparr>sdk_state := s4,
             listeners := (listeners w)(Suc (brk w) := Some (DataListener_ctor callback payload)),
             brk := Suc (brk w),
             trace := trace w @
               [Call_getConnectedCameraList, Call_createCamera (cams ! 0), Call_initialize dev,
                New_DataListener (DataListener_ptr (Suc (brk w))),
                Call_registerDataListener dev (DataListener_ptr (Suc (brk w)))]\<rparr>) \<and>
        static_cast_int status \<noteq> OK R \<and> reinterpret_cast_Camera dev \<noteq> Camera_ptr 0)"
proof -
  have nonnull: "reinterpret_cast_Camera dev \<noteq> Camera_ptr 0"
    using assms(4) by (cases dev) simp
  show ?thesis
    using assms nonnull
    by (simp add: camera_attach_def sdk_call_def new_DataListener_def failing_status_not_OK)
qed

theorem camera_attach_failure_keeps_handles_witness:
  "camera_attach scripted 7 9 (Camera_ptr 11) (DataListener_ptr 22)
       (world0 script_initialize_fails) =
     (1024, Camera_ptr 5, DataListener_ptr 22,
      \<lparr>sdk_state = script_initialize_fails, listeners = (\<lambda>a. None), brk = 0,
       trace = [Call_getConnectedCameraList, Call_createCamera ''cam0'',
                Call_initialize (ICameraDevice_ptr 5)]\<rparr>) \<and>
   camera_attach scripted 7 9 (Camera_ptr 11) (DataListener_ptr 22)
       (world0 script_register_fails) =
     (1026, Camera_ptr 5, DataListener_ptr 1,
      \<lparr>sdk_state = script_register_fails,
       listeners = (\<lambda>a. None)(1 := Some \<lparr>DataListener_callback = 7, DataListener_payload = 9\<rparr>),
       brk = 1,
       trace = [Call_getConnectedCameraList, Call_createCamera ''cam0'',
                Call_initialize (ICameraDevice_ptr 5), New_DataListener (DataListener_ptr 1),
                Call_registerDataListener (ICameraDevice_ptr 5) (DataListener_ptr 1)]\<rparr>)"
proof -
  let ?a = script_initialize_fails and ?b = script_register_fails
  have nonnull: "ICameraDevice_ptr 5 \<noteq> ICameraDevice_ptr 0"
    by simp
  have list_a: "getConnectedCameraList scripted (sdk_state (world0 ?a)) = ([''cam0''], ?a)"
    and create_a: "createCamera scripted ([''cam0''] ! 0) ?a = (ICameraDevice_ptr 5, ?a)"
    and init_a: "initialize scripted (ICameraDevice_ptr 5) ?a = (CameraStatus 1024, ?a)
                 \<and> CameraStatus 1024 \<noteq> SUCCESS scripted"
    by (simp_all add: scripted_def world0_def script_initialize_fails_def script0_def)
  have list_b: "getConnectedCameraList scripted (sdk_state (world0 ?b)) = ([''cam0''], ?b)"
    and create_b: "createCamera scripted ([''cam0''] ! 0) ?b = (ICameraDevice_ptr 5, ?b)"
    and init_b: "initialize scripted (ICameraDevice_ptr 5) ?b = (SUCCESS scripted, ?b)"
    and reg_b: "registerDataListener scripted (ICameraDevice_ptr 5)
                  (DataListener_ptr (Suc (brk (world0 ?b)))) ?b = (CameraStatus 1026, ?b)
                \<and> CameraStatus 1026 \<noteq> SUCCESS scripted"
    by (simp_all add: scripted_def world0_def script_register_fails_def script0_def)
  from camera_attach_failure_keeps_handles [OF list_a _ create_a nonnull,
      of 7 9 "Camera_ptr 11" "DataListener_ptr 22"] init_a
  have first: "camera_attach scripted 7 9 (Camera_ptr 11) (DataListener_ptr 22) (world0 ?a) =
      (static_cast_int (CameraStatus 1024), reinterpret_cast_Camera (ICameraDevice_ptr 5),
       DataListener_ptr 22,
       (world0 ?a)\<lparr>sdk_state := ?a,
         trace := trace (world0 ?a) @
           [Call_getConnectedCameraList, Call_createCamera ([''cam0''] ! 0),
            Call_initialize (ICameraDevice_ptr 5)]\<rparr>)"
    by simp
  from camera_attach_failure_keeps_handles [OF list_b _ create_b nonnull,
      of 7 9 "Camera_ptr 11" "DataListener_ptr 22"] init_b reg_b
  have second: "camera_attach scripted 7 9 (Camera_ptr 11) (DataListener_ptr 22) (world0 ?b) =
      (static_cast_int (CameraStatus 1026), reinterpret_cast_Camera (ICameraDevice_ptr 5),
       DataListener_ptr (Suc (brk (world0 ?b))),
       (world0 ?b)\<lparr>sdk_state := ?b,
         listeners := (listeners (world0 ?b))
           (Suc (brk (world0 ?b)) := Some (DataListener_ctor 7 9)),
         brk := Suc (brk (world0 ?b)),
         trace := trace (world0 ?b) @
           [Call_getConnectedCameraList, Call_createCamera ([''cam0''] ! 0),
            Call_initialize (ICameraDevice_ptr 5),
            New_DataListener (DataListener_ptr (Suc (brk (world0 ?b)))),
            Call_registerDataListener (ICameraDevice_ptr 5)
              (DataListener_ptr (Suc (brk (world0 ?b))))]\<rparr>)"
    by simp
  show ?thesis
    unfolding first second by (simp add: world0_def DataListener_ctor_def)
qed

subsection \<open>Exposure limits\<close>

text \<open>
  C4. \<open>camera_get_exposure_limits\<close> makes one SDK call, on a local pair. When the SDK
  returns \<open>SUCCESS\<close>, \<open>*low\<close> and \<open>*high\<close> receive the two halves of the pair and the
  result is \<open>OK\<close>; on any other status the result is that status and \<open>*low\<close> and
  \<open>*high\<close> hold what they held before the call, whatever the SDK wrote to the pair.
\<close>

theorem camera_get_exposure_limits_writes_on_success_only:
  assumes "getExposureLimits R (toCameraDevice camera) (0, 0) (sdk_state w) = ((status, limits), s')"
  shows "camera_get_exposure_limits R camera low high w =
           (if status = SUCCESS R
            then (OK R, fst limits, snd limits,
                  w\<lparr>sdk_state := s',
                    trace := trace w @ [Call_getExposureLimits (toCameraDevice camera)]\<rparr>)
            else (static_cast_int status, low, high,
                  w\<lparr>sdk_state := s',
                    trace := trace w @ [Call_getExposureLimits (toCameraDevice camera)]\<rparr>))"
  using assms by (simp add: camera_get_exposure_limits_def sdk_call_def)

theorem camera_get_exposure_limits_writes_on_success_only_witness:
  "camera_get_exposure_limits scripted (Camera_ptr 5) 1 2 (world0 script_limits_fail) =
     (1024, 1, 2,
      \<lparr>sdk_state = script_limits_fail, listeners = (\<lambda>a. None), brk = 0,
       trace = [Call_getExposureLimits (ICameraDevice_ptr 5)]\<rparr>) \<and>
   camera_get_exposure_limits scripted (Camera_ptr 5) 1 2 (world0 script0) =
     (0, 50, 2000,
      \<lparr>sdk_state = script0, listeners = (\<lambda>a. None), brk = 0,
       trace = [Call_getExposureLimits (ICameraDevice_ptr 5)]\<rparr>)"
proof -
  have fail: "getExposureLimits scripted (toCameraDevice (Camera_ptr 5)) (0, 0)
      (sdk_state (world0 script_limits_fail)) = ((CameraStatus 1024, (50, 2000)), script_limits_fail)"
    by (simp add: scripted_def world0_def script_limits_fail_def script0_def)
  have ok: "getExposureLimits scripted (toCameraDevice (Camera_ptr 5)) (0, 0)
      (sdk_state (world0 script0)) = ((CameraStatus 0, (50, 2000)), script0)"
    by (simp add: scripted_def world0_def script0_def)
  show ?thesis
    using camera_get_exposure_limits_writes_on_success_only [OF fail, of 1 2]
      camera_get_exposure_limits_writes_on_success_only [OF ok, of 1 2]
    by (simp add: OK_def scripted_def world0_def)
qed

subsection \<open>Listener adapter\<close>

text \<open>
  C5. For a frame the SDK delivers to a listener built from \<open>callback\<close> and \<open>payload\<close>,
  \<open>onNewData\<close> calls \<open>callback\<close> once and does nothing else: the first argument is the
  frame pointer at the address of the SDK's frame (a cast, no copy), the second is
  \<open>payload\<close> as the constructor stored it.
\<close>

theorem onNewData_calls_back_once:
  "onNewData (DataListener_ctor callback payload) (DepthData_ptr a) w =
     w\<lparr>trace := trace w @ [Callback_invoked callback (Frame_ptr a) payload]\<rparr>"
  by (simp add: onNewData_def DataListener_ctor_def)

subsection \<open>Deletion\<close>

text \<open>
  C6. \<open>camera_delete\<close> never frees the listener before deregistering it. With a non-null
  listener it first calls \<open>unregisterDataListener\<close> on the camera, then frees the
  listener (its address is no longer live), and last applies \<open>delete\<close> to the camera,
  whose destructor runs on the SDK state that deregistration left. With a null listener
  it applies \<open>delete\<close> to the camera and does nothing else: no deregistration, the heap
  of listeners untouched. \<open>delete\<close> releases the device unless the pointer is null.
\<close>

theorem camera_delete_order:
  "camera_delete R (Camera_ptr c) (DataListener_ptr a) w =
     (if a \<noteq> 0 then
        if c \<noteq> 0 then
          w\<lparr>sdk_state :=
              snd (delete_ICameraDevice R (ICameraDevice_ptr c)
                (snd (unregisterDataListener R (ICameraDevice_ptr c) (sdk_state w)))),
            listeners := (listeners w)(a := None),
            trace := trace w @
              [Call_unregisterDataListener (ICameraDevice_ptr c),
               Delete_DataListener (DataListener_ptr a),
               Delete_ICameraDevice (ICameraDevice_ptr c)]\<rparr>
        else
          w\<lparr>sdk_state := snd (unregisterDataListener R (ICameraDevice_ptr c) (sdk_state w)),
            listeners := (listeners w)(a := None),
            trace := trace w @
              [Call_unregisterDataListener (ICameraDevice_ptr c),
               Delete_DataListener (DataListener_ptr a)]\<rparr>
      else if c \<noteq> 0 then
        w\<lparr>sdk_state := snd (delete_ICameraDevice R (ICameraDevice_ptr c) (sdk_state w)),
          trace := trace w @ [Delete_ICameraDevice (ICameraDevice_ptr c)]\<rparr>
      else w)"
  by (simp add: camera_delete_def delete_camera_device_def sdk_call_def split: prod.splits)

theorem camera_delete_order_witness:
  "camera_attach tracking 7 9 (Camera_ptr 0) (DataListener_ptr 0) unattached =
     (0, Camera_ptr 5, DataListener_ptr 1, attached) \<and>
   camera_delete tracking (Camera_ptr 5) (DataListener_ptr 1) attached =
     \<lparr>sdk_state = \<lparr>registered = None, destroyed = True\<rparr>,
      listeners = (\<lambda>a. None), brk = 1,
      trace = trace attached @
        [Call_unregisterDataListener (ICameraDevice_ptr 5),
         Delete_DataListener (DataListener_ptr 1),
         Delete_ICameraDevice (ICameraDevice_ptr 5)]\<rparr> \<and>
   camera_delete tracking (Camera_ptr 5) (DataListener_ptr 0) attached =
     \<lparr>sdk_state = \<lparr>registered = Some (DataListener_ptr 1), destroyed = True\<rparr>,
      listeners = (\<lambda>a. None)(1 := Some (DataListener_ctor 7 9)), brk = 1,
      trace = trace attached @ [Delete_ICameraDevice (ICameraDevice_ptr 5)]\<rparr>"
proof -
  have attach: "camera_attach tracking 7 9 (Camera_ptr 0) (DataListener_ptr 0) unattached =
      (0, Camera_ptr 5, DataListener_ptr 1, attached)"
    by (simp add: camera_attach_def sdk_call_def new_DataListener_def tracking_def OK_def
        unattached_def attached_def)
  show ?thesis
    using attach camera_delete_order [of tracking 5 1 attached]
      camera_delete_order [of tracking 5 0 attached]
    by (simp add: tracking_def attached_def)
qed

subsection \<open>Exposure mode\<close>

text \<open>
  C9, amended. \<open>camera_set_exposure_mode\<close> passes \<open>MANUAL\<close> to the SDK when its argument
  is true and \<open>AUTOMATIC\<close> when it is false, and returns the SDK's status. When the SDK
  call succeeds, \<open>camera_get_exposure_mode\<close> writes into \<open>*isManual\<close> whether the mode the
  SDK reported is \<open>MANUAL\<close>. Hence, when both SDK calls succeed and the get call reports
  the mode the set call passed to the SDK, the value read back is the value set.
\<close>

theorem exposure_mode_round_trip:
  "camera_set_exposure_mode R camera b w =
     (static_cast_int (fst (setExposureMode R (toCameraDevice camera)
         (if b then MANUAL else AUTOMATIC) (sdk_state w))),
      w\<lparr>sdk_state := snd (setExposureMode R (toCameraDevice camera)
           (if b then MANUAL else AUTOMATIC) (sdk_state w)),
        trace := trace w @
          [Call_setExposureMode (toCameraDevice camera) (if b then MANUAL else AUTOMATIC)]\<rparr>) \<and>
   (\<forall>mode s'.
      getExposureMode R (toCameraDevice camera) (sdk_state w) = ((SUCCESS R, mode), s') \<longrightarrow>
      camera_get_exposure_mode R camera isManual w =
        (OK R, mode = MANUAL,
         w\<lparr>sdk_state := s', trace := trace w @ [Call_getExposureMode (toCameraDevice camera)]\<rparr>)) \<and>
   (\<forall>s1 s2.
      setExposureMode R (toCameraDevice camera) (if b then MANUAL else AUTOMATIC) (sdk_state w)
        = (SUCCESS R, s1) \<and>
      getExposureMode R (toCameraDevice camera) s1
        = ((SUCCESS R, if b then MANUAL else AUTOMATIC), s2) \<longrightarrow>
      (case camera_set_exposure_mode R camera b w of
         (status, w1) \<Rightarrow>
           status = OK R \<and>
           (case camera_get_exposure_mode R camera isManual w1 of
              (status', isManual', w2) \<Rightarrow> status' = OK R \<and> isManual' = b)))"
  by (auto simp: camera_set_exposure_mode_def camera_get_exposure_mode_def sdk_call_def OK_def
      Let_def split: prod.splits)

theorem exposure_mode_round_trip_witness:
  "fst (camera_set_exposure_mode scripted (Camera_ptr 5) True (world0 script0)) = 0 \<and>
   fst (camera_get_exposure_mode scripted (Camera_ptr 5) False
          (snd (camera_set_exposure_mode scripted (Camera_ptr 5) True (world0 script0)))) = 0 \<and>
   fst (snd (camera_get_exposure_mode scripted (Camera_ptr 5) False
          (snd (camera_set_exposure_mode scripted (Camera_ptr 5) True (world0 script0))))) = True"
proof -
  let ?s1 = "script0\<lparr>script_mode := MANUAL\<rparr>"
  have set: "setExposureMode scripted (toCameraDevice (Camera_ptr 5))
      (if True then MANUAL else AUTOMATIC) (sdk_state (world0 script0)) = (SUCCESS scripted, ?s1)"
    by (simp add: scripted_def world0_def)
  have get: "getExposureMode scripted (toCameraDevice (Camera_ptr 5)) ?s1 =
      ((SUCCESS scripted, if True then MANUAL else AUTOMATIC), ?s1)"
    by (simp add: scripted_def)
  have "case camera_set_exposure_mode scripted (Camera_ptr 5) True (world0 script0) of
         (status, w1) \<Rightarrow>
           status = OK scripted \<and>
           (case camera_get_exposure_mode scripted (Camera_ptr 5) False w1 of
              (status', isManual', w2) \<Rightarrow> status' = OK scripted \<and> isManual' = True)"
    by (rule exposure_mode_round_trip [of scripted "Camera_ptr 5" True "world0 script0" False,
          THEN conjunct2, THEN conjunct2, rule_format, OF conjI [OF set get]])
  then show ?thesis
    by (simp add: OK_def scripted_def split: prod.splits)
qed

text \<open>
  C9 as first stated, with success of the two SDK calls as the only condition, does not
  hold: the adapter stores nothing itself, so with an SDK that accepts a mode without
  storing it both calls succeed, both adapter calls return \<open>OK\<close>, and setting true reads
  back false.
\<close>

theorem exposure_mode_round_trip_needs_sdk:
  "fst (setExposureMode forgetful (toCameraDevice (Camera_ptr 5)) MANUAL
          (sdk_state (world0 script0))) = SUCCESS forgetful \<and>
   fst (fst (getExposureMode forgetful (toCameraDevice (Camera_ptr 5))
          (sdk_state (snd (camera_set_exposure_mode forgetful (Camera_ptr 5) True
             (world0 script0)))))) = SUCCESS forgetful \<and>
   fst (camera_set_exposure_mode forgetful (Camera_ptr 5) True (world0 script0)) = OK forgetful \<and>
   fst (camera_get_exposure_mode forgetful (Camera_ptr 5) True
          (snd (camera_set_exposure_mode forgetful (Camera_ptr 5) True (world0 script0))))
     = OK forgetful \<and>
   fst (snd (camera_get_exposure_mode forgetful (Camera_ptr 5) True
          (snd (camera_set_exposure_mode forgetful (Camera_ptr 5) True (world0 script0)))))
     = False"
  by (simp add: camera_set_exposure_mode_def camera_get_exposure_mode_def sdk_call_def OK_def
      forgetful_def scripted_def world0_def script0_def)

subsection \<open>C strings handed to the caller\<close>

text \<open>
  Both functions that return a C string allocate \<open>size()\<close> bytes and copy with
  \<open>strcpy\<close>. For a string with no null byte inside, the copy is the string and its
  terminator, one byte more than the allocation.
\<close>

lemma takeWhile_up_to_NUL:
  "NUL \<notin> set string \<Longrightarrow> takeWhile (\<lambda>c. c \<noteq> NUL) (string @ [NUL]) = string"
  by (induction string) auto

lemma strcpy_String_data:
  "NUL \<notin> set string \<Longrightarrow>
   stored (strcpy (new_char_array (String_size string)) (String_data string)) = string @ [NUL]"
  by (simp add: strcpy_def String_data_def takeWhile_up_to_NUL)

lemma strcpy_one_past_allocation:
  "NUL \<notin> set string \<Longrightarrow>
   length (stored (strcpy (new_char_array (String_size string)) (String_data string))) =
     Suc (allocated (strcpy (new_char_array (String_size string)) (String_data string)))"
  by (simp add: strcpy_def String_data_def String_size_def new_char_array_def
      takeWhile_up_to_NUL)

lemma camera_status_to_string_one_past_allocation:
  "NUL \<notin> set (getStatusString R (toCameraStatus code)) \<Longrightarrow>
   \<not> fits_allocation (camera_status_to_string R code)"
  by (simp add: fits_allocation_def camera_status_to_string_def Let_def strcpy_one_past_allocation)

text \<open>
  C2. A C string returned by \<open>camera_status_to_string\<close> or \<open>string_vector_get\<close> should
  be a null-terminated copy of the SDK string that fits within its allocation. The copy
  is right, the allocation is one byte short: with the SDK's string for status 0 being
  \<open>''SUCCESS''\<close>, \<open>camera_status_to_string 0\<close> allocates 7 bytes and writes 8, and
  \<open>string_vector_get\<close> on a vector holding \<open>''MODE_9_5FPS''\<close> overruns its block in the
  same way.
\<close>

theorem returned_string_overruns_allocation:
  "null_terminated_copy ''SUCCESS'' (camera_status_to_string scripted 0) \<and>
   allocated (camera_status_to_string scripted 0) = 7 \<and>
   length (stored (camera_status_to_string scripted 0)) = 8 \<and>
   \<not> fits_allocation (camera_status_to_string scripted 0) \<and>
   map_option (null_terminated_copy ''MODE_9_5FPS'') (string_vector_get [''MODE_9_5FPS''] 0)
     = Some True \<and>
   map_option fits_allocation (string_vector_get [''MODE_9_5FPS''] 0) = Some False"
  by (simp add: fits_allocation_def null_terminated_copy_def
      camera_status_to_string_def string_vector_get_def strcpy_def new_char_array_def
      String_size_def String_data_def NUL_def scripted_def toCameraStatus_def)

text \<open>
  C7. \<open>delete_string\<close> should release a returned string with the form of \<open>delete\<close> that
  matches its allocation. It does not: every block \<open>camera_status_to_string\<close> returns
  was allocated with the array form of \<open>new\<close>, and \<open>delete_string\<close> releases it with the
  scalar form of \<open>delete\<close>; so does it for a block \<open>string_vector_get\<close> returns.
\<close>

theorem delete_string_mismatched_form:
  "delete_string (camera_status_to_string R code) = Mismatched Array Scalar \<and>
   map_option delete_string (string_vector_get [''MODE_9_5FPS''] 0) = Some (Mismatched Array Scalar)"
  by (simp add: delete_string_def operator_delete_def camera_status_to_string_def
      string_vector_get_def strcpy_def new_char_array_def Let_def)

end
